theory Spec2Isabelle
  imports Main "HOL-Library.Log_Nat"
begin

section \<open>Python values handled by \<^verbatim>\<open>rank_ads_by_active_duration.py\<close>\<close>

text \<open>
  The script reads a JSON document with \<^verbatim>\<open>json.loads\<close> and walks through it with
  \<^verbatim>\<open>dict.get\<close>, \<^verbatim>\<open>isinstance\<close>, \<^verbatim>\<open>int(...)\<close>, truth tests and \<^verbatim>\<open>str(...)\<close>.
  The values \<^verbatim>\<open>json.loads\<close> can produce are modelled by the datatype \<open>json\<close>; an object
  is the association list of its dictionary (lookup is \<open>map_of\<close>).  A character of a
  \<open>string\<close> stands for one code point of the Python \<^verbatim>\<open>str\<close>.  A Python float is
  either one of the three special values or a finite binary64 number, given by its exact
  rational value.

  Exceptions are values: every function that can raise returns \<open>exn + 'a\<close>, with
  \<open>Inl\<close> the exception that leaves the function.
\<close>

datatype exn =
    ValueError
  | OSError
  | OverflowError
  | TypeError
  | AttributeError
  | SystemExit string

datatype pyfloat = Finite rat | PosInf | NegInf | NaN

datatype json =
    JNull
  | JBool bool
  | JInt int
  | JFloat pyfloat
  | JStr string
  | JList "json list"
  | JObj "(string \<times> json) list"

text \<open>Truth value of an object, as \<^verbatim>\<open>if x:\<close>, \<^verbatim>\<open>x and y\<close> and \<^verbatim>\<open>x or y\<close> test it.\<close>

fun py_truthy :: "json \<Rightarrow> bool" where
  "py_truthy JNull = False"
| "py_truthy (JBool b) = b"
| "py_truthy (JInt n) = (n \<noteq> 0)"
| "py_truthy (JFloat f) = (f \<noteq> Finite 0)"
| "py_truthy (JStr s) = (s \<noteq> [])"
| "py_truthy (JList xs) = (xs \<noteq> [])"
| "py_truthy (JObj kvs) = (kvs \<noteq> [])"

text \<open>
  \<^verbatim>\<open>obj.get(key)\<close>: the value stored under the key or \<^verbatim>\<open>None\<close> for a dictionary; every
  other JSON value has no attribute \<^verbatim>\<open>get\<close>.
\<close>

fun py_get :: "json \<Rightarrow> string \<Rightarrow> exn + json" where
  "py_get (JObj kvs) key = Inr (case map_of kvs key of None \<Rightarrow> JNull | Some v \<Rightarrow> v)"
| "py_get _ key = Inl AttributeError"

subsection \<open>Decimal digits\<close>

text \<open>
  Numbers are integers throughout, also where they cannot be negative: a digit, a field of
  a date, a count of microseconds.
\<close>

definition digit_val :: "char \<Rightarrow> int option" where
  "digit_val c =
     (let n = (of_char c :: int) in if 48 \<le> n \<and> n \<le> 57 then Some (n - 48) else None)"

text \<open>The value of a non-empty run of decimal digits, \<open>None\<close> for anything else.\<close>

fun digits_acc :: "int \<Rightarrow> string \<Rightarrow> int option" where
  "digits_acc acc [] = Some acc"
| "digits_acc acc (c # cs) =
     (case digit_val c of None \<Rightarrow> None | Some d \<Rightarrow> digits_acc (10 * acc + d) cs)"

definition digits_val :: "string \<Rightarrow> int option" where
  "digits_val s = (if s = [] then None else digits_acc 0 s)"

text \<open>The decimal digits of an integer \<open>n \<ge> 0\<close>.\<close>

function dec :: "int \<Rightarrow> string" where
  "dec n = (if n < 10 then [char_of (48 + n)] else dec (n div 10) @ [char_of (48 + n mod 10)])"
  by pat_completeness auto
termination
  by (relation "measure nat") auto

declare dec.simps [simp del]

definition str_int :: "int \<Rightarrow> string" where
  "str_int n = (if n < 0 then ''-'' @ dec (- n) else dec n)"

text \<open>\<^verbatim>\<open>f"{s:<w}"\<close>, \<^verbatim>\<open>f"{s:>w}"\<close> and zero filling: padding never cuts a longer text.\<close>

definition ljust :: "nat \<Rightarrow> string \<Rightarrow> string" where
  "ljust w s = s @ replicate (w - length s) CHR '' ''"

definition rjust :: "nat \<Rightarrow> string \<Rightarrow> string" where
  "rjust w s = replicate (w - length s) CHR '' '' @ s"

definition zfill :: "nat \<Rightarrow> string \<Rightarrow> string" where
  "zfill w s = replicate (w - length s) CHR ''0'' @ s"

subsection \<open>\<^verbatim>\<open>int(x)\<close>\<close>

text \<open>
  \<^verbatim>\<open>int\<close> of a text: surrounding white space is dropped, one sign is allowed, and the
  digits may be grouped by single underscores.  Everything else is a \<^verbatim>\<open>ValueError\<close>.
\<close>

definition is_space :: "char \<Rightarrow> bool" where
  "is_space c = ((of_char c :: int) \<in> {9, 10, 11, 12, 13, 32, 133, 160})"

definition strip :: "string \<Rightarrow> string" where
  "strip s = rev (dropWhile is_space (rev (dropWhile is_space s)))"

fun drop_underscores :: "string \<Rightarrow> string option" where
  "drop_underscores [] = Some []"
| "drop_underscores [c] = (if c = CHR ''_'' then None else Some [c])"
| "drop_underscores (c # d # cs) =
     (if c = CHR ''_'' then None
      else if d = CHR ''_'' then
        (case drop_underscores cs of
           None \<Rightarrow> None
         | Some r \<Rightarrow> if cs = [] then None else Some (c # r))
      else (case drop_underscores (d # cs) of None \<Rightarrow> None | Some r \<Rightarrow> Some (c # r)))"

definition unsigned_of_str :: "string \<Rightarrow> int option" where
  "unsigned_of_str s = (case drop_underscores s of None \<Rightarrow> None | Some t \<Rightarrow> digits_val t)"

definition int_of_str :: "string \<Rightarrow> int option" where
  "int_of_str s =
     (case strip s of
        [] \<Rightarrow> None
      | c # cs \<Rightarrow>
          if c = CHR ''-'' then map_option uminus (unsigned_of_str cs)
          else if c = CHR ''+'' then unsigned_of_str cs
          else unsigned_of_str (c # cs))"

definition trunc :: "rat \<Rightarrow> int" where
  "trunc r = (if 0 \<le> r then \<lfloor>r\<rfloor> else \<lceil>r\<rceil>)"

fun py_int :: "json \<Rightarrow> exn + int" where
  "py_int JNull = Inl TypeError"
| "py_int (JBool b) = Inr (if b then 1 else 0)"
| "py_int (JInt n) = Inr n"
| "py_int (JFloat (Finite r)) = Inr (trunc r)"
| "py_int (JFloat NaN) = Inl ValueError"
| "py_int (JFloat PosInf) = Inl OverflowError"
| "py_int (JFloat NegInf) = Inl OverflowError"
| "py_int (JStr s) = (case int_of_str s of None \<Rightarrow> Inl ValueError | Some n \<Rightarrow> Inr n)"
| "py_int (JList xs) = Inl TypeError"
| "py_int (JObj kvs) = Inl TypeError"

section \<open>Binary64 numbers\<close>

text \<open>
  A duration is a Python float.  The two float operations of the script are a division
  (\<^verbatim>\<open>timedelta.total_seconds\<close> divides an integer number of microseconds by \<open>10\<^sup>6\<close>,
  \<^verbatim>\<open>format_timedelta\<close> divides by 86400) and the conversion \<^verbatim>\<open>f"{days:.2f}"\<close>.
  Both are correctly rounded: a division returns the binary64 number nearest to the exact
  quotient, ties going to the even significand, and the conversion returns the two-place
  decimal nearest to the exact value of the float, ties going to the even digit.

  \<open>fl64 x\<close> is that nearest binary64 number, as an exact rational: the multiple of
  \<open>2 ^ (e - 52)\<close> nearest to \<open>x\<close>, where \<open>e\<close> is the binary exponent of \<open>x\<close>.  This is
  the binary64 result for \<open>x = 0\<close> and for \<open>x\<close> in the normal range of the format
  (\<open>\<bar>x\<bar>\<close> from \<open>2 ^ (-1022)\<close> to below \<open>2 ^ 1024\<close>).  The script divides a non-zero count
  of microseconds of at most 3.2e17 by \<open>10\<^sup>6\<close> and the result by 86400, so every
  quotient it rounds is zero or lies between 1e-11 and 3.2e11 in absolute value.
\<close>

definition pow2 :: "int \<Rightarrow> rat" where
  "pow2 k = (if 0 \<le> k then 2 ^ nat k else 1 / 2 ^ nat (- k))"

definition round_half_even :: "rat \<Rightarrow> int" where
  "round_half_even x =
     (let f = \<lfloor>x\<rfloor>; r = x - of_int f in
      if r < 1 / 2 then f else if 1 / 2 < r then f + 1 else if even f then f else f + 1)"

text \<open>\<open>ilog2 x\<close> is the binary exponent of \<open>x > 0\<close>: \<open>2 ^ ilog2 x \<le> x < 2 ^ (ilog2 x + 1)\<close>.\<close>

definition ilog2 :: "rat \<Rightarrow> int" where
  "ilog2 x =
     (case quotient_of x of
        (a, b) \<Rightarrow> (let k = bitlen a - bitlen b in if pow2 k \<le> x then k else k - 1))"

definition fl64 :: "rat \<Rightarrow> rat" where
  "fl64 x =
     (if x = 0 then 0
      else (let u = pow2 (ilog2 \<bar>x\<bar> - 52) in of_int (round_half_even (x / u)) * u))"

definition format_2f :: "rat \<Rightarrow> string" where
  "format_2f x =
     (let q = round_half_even (\<bar>x\<bar> * 100) in
      (if x < 0 then ''-'' else []) @ dec (q div 100) @ ''.'' @ zfill 2 (dec (q mod 100)))"

section \<open>The \<^verbatim>\<open>datetime\<close> operations of the script\<close>

text \<open>
  A \<^verbatim>\<open>datetime\<close> object holds a calendar reading (year to microsecond) and a
  \<^verbatim>\<open>tzinfo\<close>, which is \<^verbatim>\<open>None\<close> (a naive object) or a fixed offset from UTC (an aware
  object; \<^verbatim>\<open>timezone.utc\<close> is the offset zero).  The reading is kept as the number of
  microseconds since 0001-01-01 00:00:00 on the proleptic Gregorian calendar, the offset in
  microseconds.  The constructor accepts the years 1 to 9999, that is the days 0 to
  3652058.
\<close>

record datetime =
  wall :: int
  utcoffset :: "int option"

definition usec_per_day :: int where
  "usec_per_day = 86400000000"

definition max_days :: int where
  "max_days = 3652059"

definition is_leap :: "int \<Rightarrow> bool" where
  "is_leap y = (if y mod 400 = 0 then True else if y mod 100 = 0 then False else y mod 4 = 0)"

definition days_in_month :: "int \<Rightarrow> int \<Rightarrow> int" where
  "days_in_month y m =
     (if m = 2 then (if is_leap y then 29 else 28)
      else if m \<in> {4, 6, 9, 11} then 30 else 31)"

definition days_before_year :: "int \<Rightarrow> int" where
  "days_before_year y =
     (y - 1) * 365 + (y - 1) div 4 - (y - 1) div 100 + (y - 1) div 400"

definition days_before_month :: "int \<Rightarrow> int \<Rightarrow> int" where
  "days_before_month y m = sum_list (map (days_in_month y) [1 .. m - 1])"

text \<open>Day number of a date, 0001-01-01 being day 0.\<close>

definition ymd2ord :: "int \<Rightarrow> int \<Rightarrow> int \<Rightarrow> int" where
  "ymd2ord y m d = days_before_year y + days_before_month y m + (d - 1)"

text \<open>
  The date of a day number: the year by the 400, 100, 4 and 1 year cycles, then the
  month as the last one that starts on or before the day.
\<close>

definition ord2ymd :: "int \<Rightarrow> int \<times> int \<times> int" where
  "ord2ymd n =
     (let n400 = n div 146097; r400 = n mod 146097;
          n100 = r400 div 36524; r100 = r400 mod 36524;
          n4 = r100 div 1461; r4 = r100 mod 1461;
          n1 = r4 div 365; r1 = r4 mod 365;
          y = n400 * 400 + n100 * 100 + n4 * 4 + n1 + 1
      in if n1 = 4 \<or> n100 = 4 then (y - 1, 12, 31)
         else (let m = last (filter (\<lambda>k. days_before_month y k \<le> r1) [1 .. 12])
               in (y, m, r1 - days_before_month y m + 1)))"

text \<open>
  \<^verbatim>\<open>datetime.fromtimestamp(n, tz=timezone.utc)\<close> for an integer \<open>n\<close>.  A value outside the
  64-bit \<^verbatim>\<open>time_t\<close> is an \<^verbatim>\<open>OverflowError\<close>; a value inside it whose year is not within
  1 to 9999 is a \<^verbatim>\<open>ValueError\<close> (for the most extreme of these values the C library
  reports an \<^verbatim>\<open>OSError\<close> instead; the script catches both in one clause).
\<close>

definition fromtimestamp_utc :: "int \<Rightarrow> exn + datetime" where
  "fromtimestamp_utc n =
     (if n < - (2 ^ 63) \<or> 2 ^ 63 \<le> n then Inl OverflowError
      else (let s = n + 62135596800 in
            if s < 0 \<or> max_days * 86400 \<le> s then Inl ValueError
            else Inr \<lparr>wall = s * 1000000, utcoffset = Some 0\<rparr>))"

text \<open>
  \<^verbatim>\<open>datetime.fromisoformat\<close> reads the format
  \<^verbatim>\<open>YYYY-MM-DD[*HH[:MM[:SS[.fff[fff]]]][+HH:MM[:SS[.ffffff]]]]\<close>, where \<^verbatim>\<open>*\<close> is any
  single character, and raises \<^verbatim>\<open>ValueError\<close> for every other text and for fields out
  of range.  Without an offset the result is naive; with an offset the result keeps it.
  This is the format of Python 3.7 to 3.10, for which the script replaces a final
  \<^verbatim>\<open>Z\<close>; later versions read more forms of ISO 8601 and treat the forms above in the
  same way.
\<close>

definition two_digits :: "string \<Rightarrow> int option" where
  "two_digits s = (if length s = 2 then digits_val s else None)"

text \<open>\<open>HH[:MM[:SS[.fff[fff]]]]\<close> as hour, minute, second and microsecond.\<close>

definition parse_hh_mm_ss_ff :: "string \<Rightarrow> (int \<times> int \<times> int \<times> int) option" where
  "parse_hh_mm_ss_ff s =
     (case two_digits (take 2 s) of
        None \<Rightarrow> None
      | Some h \<Rightarrow>
          if length s = 2 then Some (h, 0, 0, 0)
          else if s ! 2 \<noteq> CHR '':'' then None
          else (case two_digits (take 2 (drop 3 s)) of
            None \<Rightarrow> None
          | Some mi \<Rightarrow>
              if length s = 5 then Some (h, mi, 0, 0)
              else if s ! 5 \<noteq> CHR '':'' then None
              else (case two_digits (take 2 (drop 6 s)) of
                None \<Rightarrow> None
              | Some sec \<Rightarrow>
                  if length s = 8 then Some (h, mi, sec, 0)
                  else if s ! 8 \<noteq> CHR ''.'' then None
                  else if length s = 12 then
                    map_option (\<lambda>f. (h, mi, sec, f * 1000)) (digits_val (drop 9 s))
                  else if length s = 15 then
                    map_option (\<lambda>f. (h, mi, sec, f)) (digits_val (drop 9 s))
                  else None)))"

definition parse_isoformat_date :: "string \<Rightarrow> int option" where
  "parse_isoformat_date s =
     (if length s = 10 \<and> s ! 4 = CHR ''-'' \<and> s ! 7 = CHR ''-'' then
        (case (digits_val (take 4 s), two_digits (take 2 (drop 5 s)),
               two_digits (drop 8 s)) of
           (Some y, Some m, Some d) \<Rightarrow>
             if 1 \<le> y \<and> 1 \<le> m \<and> m \<le> 12 \<and> 1 \<le> d \<and> d \<le> days_in_month y m
             then Some (ymd2ord y m d) else None
         | _ \<Rightarrow> None)
      else None)"

definition usec_of :: "int \<times> int \<times> int \<times> int \<Rightarrow> int" where
  "usec_of t = (case t of (h, mi, sec, f) \<Rightarrow> ((h * 60 + mi) * 60 + sec) * 1000000 + f)"

definition parse_isoformat_tz :: "string \<Rightarrow> int option" where
  "parse_isoformat_tz s =
     (case s of
        [] \<Rightarrow> None
      | c # cs \<Rightarrow>
          if length cs \<notin> {5, 8, 15} then None
          else (case parse_hh_mm_ss_ff cs of
                  None \<Rightarrow> None
                | Some t \<Rightarrow>
                    if usec_of t < usec_per_day
                    then Some (if c = CHR ''-'' then - usec_of t else usec_of t)
                    else None))"

definition parse_isoformat_time :: "string \<Rightarrow> (int \<times> int option) option" where
  "parse_isoformat_time s =
     (let is_sign = (\<lambda>c. c = CHR ''+'' \<or> c = CHR ''-'');
          clock = takeWhile (\<lambda>c. \<not> is_sign c) s;
          zone = dropWhile (\<lambda>c. \<not> is_sign c) s
      in case parse_hh_mm_ss_ff clock of
           None \<Rightarrow> None
         | Some (h, mi, sec, f) \<Rightarrow>
             if 24 \<le> h \<or> 60 \<le> mi \<or> 60 \<le> sec then None
             else if zone = [] then Some (usec_of (h, mi, sec, f), None)
             else (case parse_isoformat_tz zone of
                     None \<Rightarrow> None
                   | Some off \<Rightarrow> Some (usec_of (h, mi, sec, f), Some off)))"

definition fromisoformat :: "string \<Rightarrow> exn + datetime" where
  "fromisoformat s =
     (case parse_isoformat_date (take 10 s) of
        None \<Rightarrow> Inl ValueError
      | Some day \<Rightarrow>
          if length s = 10 then Inr \<lparr>wall = day * usec_per_day, utcoffset = None\<rparr>
          else (case parse_isoformat_time (drop 11 s) of
                  None \<Rightarrow> Inl ValueError
                | Some (t, tz) \<Rightarrow> Inr \<lparr>wall = day * usec_per_day + t, utcoffset = tz\<rparr>))"

text \<open>
  \<^verbatim>\<open>a - b\<close> is the \<^verbatim>\<open>timedelta\<close> between the two readings when both objects are naive,
  between the two instants when both are aware, and a \<^verbatim>\<open>TypeError\<close> when one is naive
  and the other aware.  The difference is kept in microseconds.
\<close>

definition dt_sub :: "datetime \<Rightarrow> datetime \<Rightarrow> exn + int" where
  "dt_sub a b =
     (case (utcoffset a, utcoffset b) of
        (None, None) \<Rightarrow> Inr (wall a - wall b)
      | (Some oa, Some ob) \<Rightarrow> Inr ((wall a - oa) - (wall b - ob))
      | _ \<Rightarrow> Inl TypeError)"

definition total_seconds :: "int \<Rightarrow> rat" where
  "total_seconds us = fl64 (of_int us / 1000000)"

text \<open>
  \<^verbatim>\<open>strftime("%Y-%m-%d %H:%M")\<close> prints the reading of the object itself, whatever its
  \<^verbatim>\<open>tzinfo\<close>.  The year is printed with four digits, as documented (some C libraries
  print a year below 1000 without the leading zeros).
\<close>

definition strftime :: "datetime \<Rightarrow> string" where
  "strftime dt =
     (case ord2ymd (wall dt div usec_per_day) of
        (y, m, d) \<Rightarrow>
          (let minutes = (wall dt mod usec_per_day) div 60000000 in
           zfill 4 (dec y) @ ''-'' @ zfill 2 (dec m) @ ''-'' @ zfill 2 (dec d)
           @ '' '' @ zfill 2 (dec (minutes div 60)) @ '':'' @ zfill 2 (dec (minutes mod 60))))"

section \<open>The script\<close>

subsection \<open>\<^verbatim>\<open>parse_datetime\<close>\<close>

text \<open>
  Lines 51 to 58: the text branch.  \<^verbatim>\<open>iso_string.endswith\<close> is an attribute of texts
  only, so a truthy value of another type raises \<^verbatim>\<open>AttributeError\<close> inside the
  \<^verbatim>\<open>try\<close>, which catches \<^verbatim>\<open>ValueError\<close> alone.
\<close>

definition endswith_Z :: "string \<Rightarrow> bool" where
  "endswith_Z s = (s \<noteq> [] \<and> last s = CHR ''Z'')"

definition parse_iso :: "json \<Rightarrow> exn + datetime option" where
  "parse_iso iso_string =
     (if py_truthy iso_string then
        (case iso_string of
           JStr s \<Rightarrow>
             (case fromisoformat (if endswith_Z s then butlast s @ ''+00:00'' else s) of
                Inr dt \<Rightarrow> Inr (Some dt)
              | Inl e \<Rightarrow> if e = ValueError then Inr None else Inl e)
         | _ \<Rightarrow> Inl AttributeError)
      else Inr None)"

text \<open>
  Lines 45 to 58.  The first \<^verbatim>\<open>try\<close> catches \<^verbatim>\<open>ValueError\<close> and \<^verbatim>\<open>OSError\<close> and
  falls through to the text branch; every other exception leaves the function.
\<close>

definition parse_datetime :: "json \<Rightarrow> json \<Rightarrow> exn + datetime option" where
  "parse_datetime epoch_value iso_string =
     (if epoch_value \<noteq> JNull then
        (case py_int epoch_value of
           Inl e \<Rightarrow> if e = ValueError \<or> e = OSError then parse_iso iso_string else Inl e
         | Inr n \<Rightarrow>
             (case fromtimestamp_utc n of
                Inr dt \<Rightarrow> Inr (Some dt)
              | Inl e \<Rightarrow> if e = ValueError \<or> e = OSError then parse_iso iso_string else Inl e))
      else parse_iso iso_string)"

subsection \<open>\<^verbatim>\<open>determine_end_time\<close>, \<^verbatim>\<open>iter_ads\<close>, \<^verbatim>\<open>format_timedelta\<close>\<close>

definition determine_end_time :: "json \<Rightarrow> datetime \<Rightarrow> exn + datetime option" where
  "determine_end_time ad default_now =
     (case py_get ad ''end_date'' of
        Inl e \<Rightarrow> Inl e
      | Inr end_epoch \<Rightarrow>
     (case py_get ad ''end_date_string'' of
        Inl e \<Rightarrow> Inl e
      | Inr end_iso \<Rightarrow>
     (case parse_datetime end_epoch end_iso of
        Inl e \<Rightarrow> Inl e
      | Inr (Some end_time) \<Rightarrow> Inr (Some end_time)
      | Inr None \<Rightarrow>
          (case py_get ad ''is_active'' of
             Inl e \<Rightarrow> Inl e
           | Inr active \<Rightarrow> if py_truthy active then Inr (Some default_now) else Inr None))))"

fun is_list :: "json \<Rightarrow> bool" where
  "is_list (JList xs) = True"
| "is_list _ = False"

fun list_items :: "json \<Rightarrow> json list" where
  "list_items (JList xs) = xs"
| "list_items _ = []"

text \<open>Lines 70 to 75: the loop over the two keys, in their order.\<close>

fun iter_keys :: "json \<Rightarrow> string list \<Rightarrow> exn + json list" where
  "iter_keys data [] = Inr []"
| "iter_keys data (key # keys) =
     (case py_get data key of
        Inl e \<Rightarrow> Inl e
      | Inr ads \<Rightarrow> if is_list ads then Inr (list_items ads) else iter_keys data keys)"

definition iter_ads :: "json \<Rightarrow> exn + json list" where
  "iter_ads data = iter_keys data [''data'', ''results'']"

definition format_timedelta :: "rat \<Rightarrow> string" where
  "format_timedelta delta_seconds = format_2f (fl64 (delta_seconds / 86400))"

subsection \<open>\<^verbatim>\<open>main\<close>: the ranking\<close>

text \<open>The dictionary appended to \<^verbatim>\<open>ranking\<close> in lines 106 to 114.\<close>

record entry =
  ad_archive_id :: json
  page_name :: json
  start_time :: datetime
  end_time :: datetime
  duration_seconds :: rat

text \<open>
  Lines 97 to 114, the body of the loop for one \<^verbatim>\<open>ad\<close>: \<open>Inr None\<close> is a
  \<^verbatim>\<open>continue\<close>, \<open>Inr (Some e)\<close> the entry appended, \<open>Inl x\<close> an exception that
  nothing in \<^verbatim>\<open>main\<close> catches.
\<close>

definition process_ad :: "datetime \<Rightarrow> json \<Rightarrow> exn + entry option" where
  "process_ad now ad =
     (case py_get ad ''start_date'' of
        Inl x \<Rightarrow> Inl x
      | Inr start_epoch \<Rightarrow>
     (case py_get ad ''start_date_string'' of
        Inl x \<Rightarrow> Inl x
      | Inr start_iso \<Rightarrow>
     (case parse_datetime start_epoch start_iso of
        Inl x \<Rightarrow> Inl x
      | Inr None \<Rightarrow> Inr None
      | Inr (Some start) \<Rightarrow>
     (case determine_end_time ad now of
        Inl x \<Rightarrow> Inl x
      | Inr None \<Rightarrow> Inr None
      | Inr (Some end) \<Rightarrow>
     (case dt_sub end start of
        Inl x \<Rightarrow> Inl x
      | Inr delta \<Rightarrow>
          if total_seconds delta < 0 then Inr None
          else
     (case py_get ad ''ad_archive_id'' of
        Inl x \<Rightarrow> Inl x
      | Inr ident \<Rightarrow>
     (case py_get ad ''page_name'' of
        Inl x \<Rightarrow> Inl x
      | Inr page \<Rightarrow>
          Inr (Some \<lparr>ad_archive_id = ident, page_name = page, start_time = start,
                     end_time = end, duration_seconds = total_seconds delta\<rparr>))))))))"

text \<open>Lines 95 to 114: the loop, with \<^verbatim>\<open>ranking\<close> as the accumulator.\<close>

fun collect :: "datetime \<Rightarrow> json list \<Rightarrow> entry list \<Rightarrow> exn + entry list" where
  "collect now [] ranking = Inr ranking"
| "collect now (ad # ads) ranking =
     (case process_ad now ad of
        Inl x \<Rightarrow> Inl x
      | Inr None \<Rightarrow> collect now ads ranking
      | Inr (Some e) \<Rightarrow> collect now ads (ranking @ [e]))"

text \<open>
  Line 116, \<^verbatim>\<open>ranking.sort(key=..., reverse=True)\<close>.  \<^verbatim>\<open>list.sort\<close> is stable; with
  \<^verbatim>\<open>reverse=True\<close> it reverses the list, sorts it stably in ascending order of the key
  and reverses the result.
\<close>

definition sort_reverse :: "('a \<Rightarrow> rat) \<Rightarrow> 'a list \<Rightarrow> 'a list" where
  "sort_reverse key xs = rev (sort_key key (rev xs))"

text \<open>
  Lines 88 to 93.  \<^verbatim>\<open>--now\<close> is \<open>None\<close> when the option is not given; \<open>clock\<close> is the
  value of \<^verbatim>\<open>datetime.now(tz=timezone.utc)\<close>.  \<^verbatim>\<open>raise SystemExit(text)\<close> ends the process
  with the text on standard error and the exit status 1.
\<close>

definition resolve_now :: "string option \<Rightarrow> datetime \<Rightarrow> exn + datetime" where
  "resolve_now now_arg clock =
     (case now_arg of
        None \<Rightarrow> Inr clock
      | Some text \<Rightarrow>
          if text \<noteq> [] then
            (case parse_datetime JNull (JStr text) of
               Inl x \<Rightarrow> Inl x
             | Inr None \<Rightarrow> Inl (SystemExit (''Invalid --now value: '' @ text))
             | Inr (Some now) \<Rightarrow> Inr now)
          else Inr clock)"

text \<open>Lines 83 to 116: the sorted ranking of a loaded payload.\<close>

definition rank_ads :: "datetime \<Rightarrow> json \<Rightarrow> exn + entry list" where
  "rank_ads now payload =
     (case iter_ads payload of
        Inl x \<Rightarrow> Inl x
      | Inr ads \<Rightarrow>
          (case collect now ads [] of
             Inl x \<Rightarrow> Inl x
           | Inr ranking \<Rightarrow> Inr (sort_reverse duration_seconds ranking)))"

subsection \<open>\<^verbatim>\<open>main\<close>: the report\<close>

text \<open>
  \<^verbatim>\<open>str(x)\<close> of an identifier or page name.  The text of a float, a list or a dictionary
  is taken from the parameter \<open>repr\<close>: none of the properties below depends on it.
\<close>

fun py_str :: "(json \<Rightarrow> string) \<Rightarrow> json \<Rightarrow> string" where
  "py_str repr JNull = ''None''"
| "py_str repr (JBool b) = (if b then ''True'' else ''False'')"
| "py_str repr (JInt n) = str_int n"
| "py_str repr (JStr s) = s"
| "py_str repr v = repr v"

text \<open>\<^verbatim>\<open>str(x or '')\<close>\<close>

definition str_or_empty :: "(json \<Rightarrow> string) \<Rightarrow> json \<Rightarrow> string" where
  "str_or_empty repr v = (if py_truthy v then py_str repr v else [])"

definition message :: string where
  "message = ''No ads with valid start and end times found.''"

definition header :: string where
  "header =
     rjust 4 ''Rank'' @ ''  '' @ ljust 20 ''Ad Archive ID'' @ ''  '' @ ljust 30 ''Page Name''
     @ ''  '' @ ljust 20 ''Start (UTC)'' @ ''  '' @ ljust 20 ''End (UTC)'' @ ''  ''
     @ rjust 12 ''Active Days''"

definition separator :: string where
  "separator = replicate (length header) CHR ''-''"

text \<open>Lines 141 to 147: the line of the entry with rank \<open>index\<close>.\<close>

definition row :: "(json \<Rightarrow> string) \<Rightarrow> int \<Rightarrow> entry \<Rightarrow> string" where
  "row repr index item =
     rjust 4 (str_int index) @ ''  '' @ ljust 20 (str_or_empty repr (ad_archive_id item))
     @ ''  '' @ ljust 30 (str_or_empty repr (page_name item))
     @ ''  '' @ ljust 20 (strftime (start_time item))
     @ ''  '' @ ljust 20 (strftime (end_time item))
     @ ''  '' @ rjust 12 (format_timedelta (duration_seconds item))"

text \<open>\<^verbatim>\<open>enumerate(ranking, start=index)\<close> with the line of each pair.\<close>

fun rows :: "(json \<Rightarrow> string) \<Rightarrow> int \<Rightarrow> entry list \<Rightarrow> string list" where
  "rows repr index [] = []"
| "rows repr index (item # items) = row repr index item # rows repr (index + 1) items"

text \<open>
  What a run that ends normally has done: the lines given to \<^verbatim>\<open>print\<close>, in order, and
  the text given to \<^verbatim>\<open>output_path.write_text\<close>.  The choice of the path (lines 118 to 121)
  has no part in either and is left out.
\<close>

record report =
  printed :: "string list"
  written :: string

definition newline :: string where
  "newline = [CHR 0x0A]"

text \<open>\<^verbatim>\<open>"\n".join(lines)\<close>\<close>

fun join_lines :: "string list \<Rightarrow> string" where
  "join_lines [] = []"
| "join_lines [l] = l"
| "join_lines (l # ls) = l @ newline @ join_lines ls"

text \<open>The characters \<^verbatim>\<open>print\<close> sends to standard output: every line and its line end.\<close>

definition stdout_text :: "report \<Rightarrow> string" where
  "stdout_text r = concat (map (\<lambda>l. l @ newline) (printed r))"

text \<open>Lines 123 to 151.\<close>

definition render :: "(json \<Rightarrow> string) \<Rightarrow> entry list \<Rightarrow> report" where
  "render repr ranking =
     (if ranking = [] then
        \<lparr>printed = [message], written = join_lines [message] @ newline\<rparr>
      else
        (let lines = [header, separator] @ rows repr 1 ranking in
         \<lparr>printed = lines, written = join_lines lines @ newline\<rparr>))"

text \<open>
  \<^verbatim>\<open>main\<close>.  \<open>loaded\<close> is the outcome of lines 85 and 86 (reading the input file and
  \<^verbatim>\<open>json.loads\<close>): the payload, or the exception that ended the run there.  A run that
  ends by an exception has printed nothing and written nothing, since every \<^verbatim>\<open>print\<close>
  and the one \<^verbatim>\<open>write_text\<close> come after the loop and the sort.
\<close>

definition main :: "(json \<Rightarrow> string) \<Rightarrow> string option \<Rightarrow> exn + json \<Rightarrow> datetime \<Rightarrow> exn + report" where
  "main repr now_arg loaded clock =
     (case loaded of
        Inl x \<Rightarrow> Inl x
      | Inr payload \<Rightarrow>
          (case resolve_now now_arg clock of
             Inl x \<Rightarrow> Inl x
           | Inr now \<Rightarrow>
               (case rank_ads now payload of
                  Inl x \<Rightarrow> Inl x
                | Inr ranking \<Rightarrow> Inr (render repr ranking))))"




section \<open>Notions used in the properties\<close>

text \<open>
  The entries of the records that are not skipped, in the order of the list: what the loop
  of lines 96 to 114 appends to \<^verbatim>\<open>ranking\<close>.
\<close>

definition emitted :: "datetime \<Rightarrow> json list \<Rightarrow> entry list" where
  "emitted now ads =
     concat (map (\<lambda>ad. case process_ad now ad of Inr (Some e) \<Rightarrow> [e] | _ \<Rightarrow> []) ads)"

text \<open>\<^verbatim>\<open>d.get(key)\<close> for the dictionary with the items \<open>kvs\<close>.\<close>

definition lookup :: "(string \<times> json) list \<Rightarrow> string \<Rightarrow> json" where
  "lookup kvs key = (case map_of kvs key of None \<Rightarrow> JNull | Some v \<Rightarrow> v)"

text \<open>
  Inputs on which the properties are evaluated: a current time, the example of the
  specification, a list with equal durations, a list with a negative duration, and
  records that are skipped (no start, no end and not active, end before start, start text
  that is no date).
\<close>

definition utc_2025 :: datetime where
  "utc_2025 = \<lparr>wall = 63871286400000000, utcoffset = Some 0\<rparr>"

definition example_ad :: json where
  "example_ad = JObj [(''ad_archive_id'', JStr ''A1''), (''page_name'', JStr ''P1''),
                      (''start_date'', JInt 1000), (''end_date'', JInt (1000 + 86400 * 3))]"

definition example_payload :: json where
  "example_payload = JObj [(''data'', JList [example_ad])]"

definition tie_payload :: json where
  "tie_payload = JObj [(''data'', JList
     [JObj [(''ad_archive_id'', JStr ''A''), (''start_date'', JInt 1000), (''end_date'', JInt 87400)],
      JObj [(''ad_archive_id'', JStr ''B''), (''start_date'', JInt 1000), (''end_date'', JInt 173800)],
      JObj [(''ad_archive_id'', JStr ''S''), (''end_date'', JInt 173800)],
      JObj [(''ad_archive_id'', JStr ''D''), (''start_date'', JInt 5000), (''end_date'', JInt 177800)],
      JObj [(''ad_archive_id'', JStr ''C''), (''start_date'', JInt 7000), (''end_date'', JInt 93400)]])]"

definition negative_payload :: json where
  "negative_payload = JObj [(''results'', JList
     [JObj [(''ad_archive_id'', JStr ''NEG''), (''start_date'', JInt 1000), (''end_date'', JInt 500)],
      JObj [(''ad_archive_id'', JStr ''OK''), (''start_date'', JInt 1000), (''end_date'', JInt 87400)]])]"

definition skipped_ads :: "json list" where
  "skipped_ads =
     [JObj [(''ad_archive_id'', JStr ''N1''), (''page_name'', JStr ''no start'')],
      JObj [(''ad_archive_id'', JStr ''N2''), (''start_date'', JInt 1000), (''is_active'', JBool False)],
      JObj [(''ad_archive_id'', JStr ''N3''), (''start_date'', JInt 1000), (''end_date'', JInt 500)],
      JObj [(''ad_archive_id'', JStr ''N4''), (''start_date_string'', JStr ''yesterday''),
            (''end_date'', JInt 500)]]"

section \<open>Properties\<close>

subsection \<open>Binary64 rounding\<close>

lemma pow2_powi: "pow2 k = 2 powi k"
  by (simp add: pow2_def power_int_def field_simps)

lemma pow2_pos: "0 < pow2 k"
  by (simp add: pow2_powi)

lemma pow2_add: "pow2 (a + b) = pow2 a * pow2 b"
  by (simp add: pow2_powi power_int_add)

lemma pow2_mono: "a \<le> b \<Longrightarrow> pow2 a \<le> pow2 b"
  by (simp add: pow2_powi power_int_increasing)

lemma pow2_less_imp: "pow2 a < pow2 b \<Longrightarrow> a < b"
  using pow2_mono [of b a] by (cases "a < b") simp_all

lemma pow2_nat: "0 \<le> k \<Longrightarrow> pow2 k = 2 ^ nat k"
  by (simp add: pow2_def)

lemma round_half_even_error: "\<bar>of_int (round_half_even y) - y\<bar> \<le> 1 / 2"
proof -
  define f where "f = \<lfloor>y\<rfloor>"
  define r where "r = y - of_int f"
  have r: "0 \<le> r" "r < 1"
    unfolding r_def f_def by linarith+
  have y: "y = of_int f + r"
    by (simp add: r_def)
  have "round_half_even y = (if r < 1 / 2 then f else if 1 / 2 < r then f + 1
                             else if even f then f else f + 1)"
    by (simp add: round_half_even_def Let_def f_def r_def)
  then show ?thesis
    using r by (auto simp: y)
qed

lemma round_half_even_near:
  assumes "\<bar>z - of_int q\<bar> < 1 / 2"
  shows "round_half_even z = q"
proof -
  have "\<bar>of_int (round_half_even z) - (of_int q :: rat)\<bar> < 1"
    using round_half_even_error [of z] assms by linarith
  then have "\<bar>(of_int (round_half_even z - q) :: rat)\<bar> < 1" by simp
  then have "\<bar>round_half_even z - q\<bar> < 1"
    by (metis of_int_abs of_int_less_1_iff)
  then show ?thesis by linarith
qed

lemma round_half_even_of_int: "round_half_even (of_int n) = n"
  by (rule round_half_even_near) simp

lemma ilog2_le:
  assumes "0 < x"
  shows "pow2 (ilog2 x) \<le> x"
proof -
  obtain a b where q: "quotient_of x = (a, b)" by (cases "quotient_of x")
  then have b: "0 < b" and x: "x = of_int a / of_int b"
    using quotient_of_denom_pos [OF q] quotient_of_div [OF q] by simp_all
  from assms x b have a: "0 < a"
    by (simp add: zero_less_divide_iff)
  define k where "k = bitlen a - bitlen b"
  show ?thesis
  proof (cases "pow2 k \<le> x")
    case True
    then show ?thesis by (simp add: ilog2_def q k_def)
  next
    case False
    have ba: "1 \<le> bitlen a" and bb: "1 \<le> bitlen b"
      using a b by (simp_all add: bitlen_alt_def)
    have "(2::int) ^ nat (bitlen a - 1) \<le> a"
      using bitlen_bounds [OF a] by simp
    then have "(of_int ((2::int) ^ nat (bitlen a - 1)) :: rat) \<le> of_int a"
      by (simp only: of_int_le_iff)
    then have la: "pow2 (bitlen a - 1) \<le> of_int a"
      using ba by (simp add: pow2_nat)
    have "b < (2::int) ^ nat (bitlen b)"
      using bitlen_bounds [OF b] by simp
    then have "(of_int b :: rat) < of_int ((2::int) ^ nat (bitlen b))"
      by (simp only: of_int_less_iff)
    then have ub: "of_int b < pow2 (bitlen b)"
      using bb by (simp add: pow2_nat)
    have "pow2 (k - 1) * pow2 (bitlen b) = pow2 (bitlen a - 1)"
      by (simp add: pow2_add [symmetric] k_def)
    then have "pow2 (k - 1) * pow2 (bitlen b) \<le> of_int a"
      using la by simp
    moreover have "pow2 (k - 1) * of_int b \<le> pow2 (k - 1) * pow2 (bitlen b)"
      using ub pow2_pos [of "k - 1"] by (simp add: mult_left_mono)
    ultimately have "pow2 (k - 1) * of_int b \<le> of_int a" by linarith
    then have "pow2 (k - 1) \<le> x"
      using b by (simp add: x pos_le_divide_eq)
    with False show ?thesis by (simp add: ilog2_def q k_def)
  qed
qed

lemma fl64_error:
  assumes "x \<noteq> 0"
  shows "\<bar>fl64 x - x\<bar> * 2 ^ 53 \<le> \<bar>x\<bar>"
proof -
  define u where "u = pow2 (ilog2 \<bar>x\<bar> - 52)"
  have u: "0 < u" by (simp add: u_def pow2_pos)
  have "pow2 (ilog2 \<bar>x\<bar>) = u * 2 ^ 52"
    using pow2_add [of "ilog2 \<bar>x\<bar> - 52" 52] by (simp add: u_def pow2_nat)
  then have ux: "u * 2 ^ 52 \<le> \<bar>x\<bar>"
    using ilog2_le [of "\<bar>x\<bar>"] assms by simp
  have f: "fl64 x = of_int (round_half_even (x / u)) * u"
    using assms by (simp add: fl64_def Let_def u_def)
  have "\<bar>of_int (round_half_even (x / u)) - x / u\<bar> * u \<le> 1 / 2 * u"
    using round_half_even_error [of "x / u"] u by (simp add: mult_right_mono)
  moreover have "(of_int (round_half_even (x / u)) - x / u) * u = fl64 x - x"
    using u by (simp add: f left_diff_distrib)
  then have "\<bar>of_int (round_half_even (x / u)) - x / u\<bar> * u = \<bar>fl64 x - x\<bar>"
    using u by (metis abs_mult abs_of_pos)
  ultimately have "\<bar>fl64 x - x\<bar> \<le> u / 2" by simp
  then have "\<bar>fl64 x - x\<bar> * 2 ^ 53 \<le> u * 2 ^ 52" by simp
  with ux show ?thesis by linarith
qed

lemma fl64_nonneg_iff: "0 \<le> fl64 x \<longleftrightarrow> 0 \<le> x"
proof (cases "x = 0")
  case True
  then show ?thesis by (simp add: fl64_def)
next
  case False
  define c where "c = \<bar>fl64 x - x\<bar>"
  have "c * 2 ^ 53 \<le> \<bar>x\<bar>"
    using fl64_error [OF False] by (simp add: c_def)
  moreover have "c * 2 \<le> c * 2 ^ 53"
    by (rule mult_left_mono) (simp_all add: c_def)
  ultimately have c: "c * 2 \<le> \<bar>x\<bar>"
    by simp
  have d: "fl64 x - x \<le> c" "x - fl64 x \<le> c"
    by (simp_all add: c_def)
  show ?thesis
  proof (cases "0 \<le> x")
    case True
    then have "\<bar>x\<bar> = x" by simp
    with c d(2) True have "0 \<le> fl64 x" by linarith
    with True show ?thesis by simp
  next
    case neg: False
    then have "\<bar>x\<bar> = - x" by simp
    with c d(1) neg have "fl64 x < 0" by linarith
    with neg show ?thesis by simp
  qed
qed

lemma fl64_of_int:
  assumes "\<bar>n\<bar> < 2 ^ 53"
  shows "fl64 (of_int n) = of_int n"
proof (cases "n = 0")
  case True
  then show ?thesis by (simp add: fl64_def)
next
  case False
  define e where "e = ilog2 \<bar>of_int n\<bar>"
  have "pow2 e \<le> \<bar>of_int n\<bar>"
    unfolding e_def using False by (intro ilog2_le) simp
  moreover have "\<bar>of_int n :: rat\<bar> < 2 ^ 53"
    using assms by (metis of_int_abs of_int_less_numeral_power_cancel_iff)
  ultimately have "pow2 e < pow2 53" by (simp add: pow2_nat)
  then have e: "e \<le> 52" using pow2_less_imp [of e 53] by simp
  have "pow2 (e - 52) * pow2 (52 - e) = 1"
    by (simp add: pow2_add [symmetric] pow2_def)
  then have u: "1 / pow2 (e - 52) = of_int (2 ^ nat (52 - e))"
    using e pow2_pos [of "e - 52"] by (simp add: pow2_nat field_simps)
  have "of_int n / pow2 (e - 52) = of_int n * (1 / pow2 (e - 52))"
    by simp
  then have "of_int n / pow2 (e - 52) = (of_int (n * 2 ^ nat (52 - e)) :: rat)"
    by (simp only: u of_int_mult)
  then have "round_half_even (of_int n / pow2 (e - 52)) = n * 2 ^ nat (52 - e)"
    by (simp only: round_half_even_of_int)
  then have "fl64 (of_int n) = of_int (n * 2 ^ nat (52 - e)) * pow2 (e - 52)"
    using False by (simp add: fl64_def Let_def e_def)
  also have "\<dots> = of_int n * (1 / pow2 (e - 52)) * pow2 (e - 52)"
    by (simp only: u of_int_mult)
  also have "\<dots> = of_int n"
    using pow2_pos [of "e - 52"] by simp
  finally show ?thesis .
qed

subsection \<open>The loop and the sort\<close>

lemma collect_emitted:
  "collect now ads acc = Inr es \<Longrightarrow> es = acc @ emitted now ads"
proof (induction ads arbitrary: acc)
  case Nil
  then show ?case by (simp add: emitted_def)
next
  case (Cons ad ads)
  show ?case
  proof (cases "process_ad now ad")
    case (Inl x)
    with Cons.prems show ?thesis by simp
  next
    case (Inr r)
    show ?thesis
    proof (cases r)
      case None
      with Inr Cons.prems have "collect now ads acc = Inr es" by simp
      from Cons.IH [OF this] show ?thesis
        using Inr None by (simp add: emitted_def)
    next
      case (Some e)
      with Inr Cons.prems have "collect now ads (acc @ [e]) = Inr es" by simp
      from Cons.IH [OF this] show ?thesis
        using Inr Some by (simp add: emitted_def)
    qed
  qed
qed

lemma emitted_from_ad:
  "e \<in> set (emitted now ads) \<Longrightarrow> \<exists>ad \<in> set ads. process_ad now ad = Inr (Some e)"
  by (auto simp: emitted_def split: sum.splits option.splits)

lemma emitted_all_skipped:
  "\<forall>ad \<in> set ads. process_ad now ad = Inr None \<Longrightarrow> collect now ads acc = Inr acc"
  by (induction ads arbitrary: acc) auto

lemma process_ad_Some:
  assumes "process_ad now ad = Inr (Some e)"
  shows "\<exists>delta. dt_sub (end_time e) (start_time e) = Inr delta
           \<and> duration_seconds e = total_seconds delta \<and> 0 \<le> duration_seconds e"
  using assms
  by (auto simp: process_ad_def split: sum.splits option.splits if_splits)

lemma total_seconds_nonneg_iff: "0 \<le> total_seconds delta \<longleftrightarrow> 0 \<le> delta"
  by (simp add: total_seconds_def fl64_nonneg_iff zero_le_divide_iff)

lemma sort_reverse_sorted:
  "sorted_wrt (\<lambda>a b. key b \<le> key a) (sort_reverse key xs)"
proof -
  have "sorted (map key (sort_key key (rev xs)))"
    by simp
  then have "sorted_wrt (\<lambda>a b. key a \<le> key b) (sort_key key (rev xs))"
    by (simp add: sorted_map)
  then show ?thesis
    by (simp add: sort_reverse_def sorted_wrt_rev)
qed

lemma sort_reverse_stable:
  "filter (\<lambda>x. key x = k) (sort_reverse key xs) = filter (\<lambda>x. key x = k) xs"
  by (simp add: sort_reverse_def rev_filter [symmetric] sort_key_stable)

lemma sort_reverse_set: "set (sort_reverse key xs) = set xs"
  by (simp add: sort_reverse_def)

lemma main_Inr:
  assumes "main repr now_arg (Inr payload) clock = Inr rep"
  shows "\<exists>now ads. resolve_now now_arg clock = Inr now \<and> iter_ads payload = Inr ads
           \<and> collect now ads [] = Inr (emitted now ads)
           \<and> rank_ads now payload = Inr (sort_reverse duration_seconds (emitted now ads))
           \<and> rep = render repr (sort_reverse duration_seconds (emitted now ads))"
proof -
  from assms obtain now ranking where n: "resolve_now now_arg clock = Inr now"
    and r: "rank_ads now payload = Inr ranking" and rep: "rep = render repr ranking"
    by (auto simp: main_def split: sum.splits)
  from r obtain ads es where a: "iter_ads payload = Inr ads"
    and c: "collect now ads [] = Inr es" and s: "ranking = sort_reverse duration_seconds es"
    by (auto simp: rank_ads_def split: sum.splits)
  from collect_emitted [OF c] have "es = emitted now ads" by simp
  with n r rep a c s show ?thesis by auto
qed

text \<open>
  C5.  When the run ends normally, the report is rendered from the ranking (one row per
  entry, in the order of the ranking), the ranking is in non-increasing order of
  \<open>duration_seconds\<close>, and for every duration the entries having it stand in the ranking
  in the order in which the loop appended them.
\<close>

theorem ranking_sorted_stable:
  assumes "main repr now_arg (Inr payload) clock = Inr rep"
  shows "\<exists>now ads ranking. resolve_now now_arg clock = Inr now \<and> iter_ads payload = Inr ads
           \<and> collect now ads [] = Inr (emitted now ads)
           \<and> rank_ads now payload = Inr ranking \<and> rep = render repr ranking
           \<and> sorted_wrt (\<lambda>a b. duration_seconds b \<le> duration_seconds a) ranking
           \<and> (\<forall>d. filter (\<lambda>e. duration_seconds e = d) ranking
                  = filter (\<lambda>e. duration_seconds e = d) (emitted now ads))"
  using main_Inr [OF assms] sort_reverse_sorted sort_reverse_stable by metis

text \<open>C5 on a list with two pairs of equal durations and a skipped record between them.\<close>

theorem ranking_sorted_stable_witness:
  "main (\<lambda>v. []) None (Inr tie_payload) utc_2025
     = Inr \<lparr>printed = [''Rank  Ad Archive ID         Page Name                       Start (UTC)           End (UTC)              Active Days'',
      ''--------------------------------------------------------------------------------------------------------------------'',
      ''   1  B                                                     1970-01-01 00:16      1970-01-03 00:16              2.00'',
      ''   2  D                                                     1970-01-01 01:23      1970-01-03 01:23              2.00'',
      ''   3  A                                                     1970-01-01 00:16      1970-01-02 00:16              1.00'',
      ''   4  C                                                     1970-01-01 01:56      1970-01-02 01:56              1.00''],
    written = ''Rank  Ad Archive ID         Page Name                       Start (UTC)           End (UTC)              Active Days\<newline>--------------------------------------------------------------------------------------------------------------------\<newline>   1  B                                                     1970-01-01 00:16      1970-01-03 00:16              2.00\<newline>   2  D                                                     1970-01-01 01:23      1970-01-03 01:23              2.00\<newline>   3  A                                                     1970-01-01 00:16      1970-01-02 00:16              1.00\<newline>   4  C                                                     1970-01-01 01:56      1970-01-02 01:56              1.00\<newline>''\<rparr>
   \<and> (\<exists>now ads ranking. resolve_now None utc_2025 = Inr now \<and> iter_ads tie_payload = Inr ads
         \<and> collect now ads [] = Inr (emitted now ads)
         \<and> rank_ads now tie_payload = Inr ranking
         \<and> \<lparr>printed = [''Rank  Ad Archive ID         Page Name                       Start (UTC)           End (UTC)              Active Days'',
      ''--------------------------------------------------------------------------------------------------------------------'',
      ''   1  B                                                     1970-01-01 00:16      1970-01-03 00:16              2.00'',
      ''   2  D                                                     1970-01-01 01:23      1970-01-03 01:23              2.00'',
      ''   3  A                                                     1970-01-01 00:16      1970-01-02 00:16              1.00'',
      ''   4  C                                                     1970-01-01 01:56      1970-01-02 01:56              1.00''],
    written = ''Rank  Ad Archive ID         Page Name                       Start (UTC)           End (UTC)              Active Days\<newline>--------------------------------------------------------------------------------------------------------------------\<newline>   1  B                                                     1970-01-01 00:16      1970-01-03 00:16              2.00\<newline>   2  D                                                     1970-01-01 01:23      1970-01-03 01:23              2.00\<newline>   3  A                                                     1970-01-01 00:16      1970-01-02 00:16              1.00\<newline>   4  C                                                     1970-01-01 01:56      1970-01-02 01:56              1.00\<newline>''\<rparr> = render (\<lambda>v. []) ranking
         \<and> sorted_wrt (\<lambda>a b. duration_seconds b \<le> duration_seconds a) ranking
         \<and> (\<forall>d. filter (\<lambda>e. duration_seconds e = d) ranking
                = filter (\<lambda>e. duration_seconds e = d) (emitted now ads)))"
proof -
  have ev: "main (\<lambda>v. []) None (Inr tie_payload) utc_2025
     = Inr \<lparr>printed = [''Rank  Ad Archive ID         Page Name                       Start (UTC)           End (UTC)              Active Days'',
      ''--------------------------------------------------------------------------------------------------------------------'',
      ''   1  B                                                     1970-01-01 00:16      1970-01-03 00:16              2.00'',
      ''   2  D                                                     1970-01-01 01:23      1970-01-03 01:23              2.00'',
      ''   3  A                                                     1970-01-01 00:16      1970-01-02 00:16              1.00'',
      ''   4  C                                                     1970-01-01 01:56      1970-01-02 01:56              1.00''],
    written = ''Rank  Ad Archive ID         Page Name                       Start (UTC)           End (UTC)              Active Days\<newline>--------------------------------------------------------------------------------------------------------------------\<newline>   1  B                                                     1970-01-01 00:16      1970-01-03 00:16              2.00\<newline>   2  D                                                     1970-01-01 01:23      1970-01-03 01:23              2.00\<newline>   3  A                                                     1970-01-01 00:16      1970-01-02 00:16              1.00\<newline>   4  C                                                     1970-01-01 01:56      1970-01-02 01:56              1.00\<newline>''\<rparr>"
    by code_simp
  from ranking_sorted_stable [OF ev] ev show ?thesis by (rule conjI [rotated])
qed

text \<open>
  C6.  Every entry of the rendered ranking has a duration that is not negative, and this
  duration is the difference of its end and its start, itself not negative.
\<close>

theorem no_negative_duration:
  assumes "main repr now_arg (Inr payload) clock = Inr rep"
  shows "\<exists>now ranking. resolve_now now_arg clock = Inr now
           \<and> rank_ads now payload = Inr ranking \<and> rep = render repr ranking
           \<and> (\<forall>e \<in> set ranking. 0 \<le> duration_seconds e
                \<and> (\<exists>delta. dt_sub (end_time e) (start_time e) = Inr delta \<and> 0 \<le> delta
                      \<and> duration_seconds e = total_seconds delta))"
proof -
  from main_Inr [OF assms] obtain now ads where n: "resolve_now now_arg clock = Inr now"
    and r: "rank_ads now payload = Inr (sort_reverse duration_seconds (emitted now ads))"
    and rep: "rep = render repr (sort_reverse duration_seconds (emitted now ads))"
    by blast
  have "0 \<le> duration_seconds e
        \<and> (\<exists>delta. dt_sub (end_time e) (start_time e) = Inr delta \<and> 0 \<le> delta
              \<and> duration_seconds e = total_seconds delta)"
    if "e \<in> set (sort_reverse duration_seconds (emitted now ads))" for e
  proof -
    from that have "e \<in> set (emitted now ads)" by (simp add: sort_reverse_set)
    then obtain ad where "process_ad now ad = Inr (Some e)"
      using emitted_from_ad by blast
    from process_ad_Some [OF this] show ?thesis
      using total_seconds_nonneg_iff by metis
  qed
  with n r rep show ?thesis by blast
qed

text \<open>C6 on a list whose first record ends before it starts.\<close>

theorem no_negative_duration_witness:
  "main (\<lambda>v. []) None (Inr negative_payload) utc_2025
     = Inr \<lparr>printed = [''Rank  Ad Archive ID         Page Name                       Start (UTC)           End (UTC)              Active Days'',
      ''--------------------------------------------------------------------------------------------------------------------'',
      ''   1  OK                                                    1970-01-01 00:16      1970-01-02 00:16              1.00''],
    written = ''Rank  Ad Archive ID         Page Name                       Start (UTC)           End (UTC)              Active Days\<newline>--------------------------------------------------------------------------------------------------------------------\<newline>   1  OK                                                    1970-01-01 00:16      1970-01-02 00:16              1.00\<newline>''\<rparr>
   \<and> (\<exists>now ranking. resolve_now None utc_2025 = Inr now
         \<and> rank_ads now negative_payload = Inr ranking
         \<and> \<lparr>printed = [''Rank  Ad Archive ID         Page Name                       Start (UTC)           End (UTC)              Active Days'',
      ''--------------------------------------------------------------------------------------------------------------------'',
      ''   1  OK                                                    1970-01-01 00:16      1970-01-02 00:16              1.00''],
    written = ''Rank  Ad Archive ID         Page Name                       Start (UTC)           End (UTC)              Active Days\<newline>--------------------------------------------------------------------------------------------------------------------\<newline>   1  OK                                                    1970-01-01 00:16      1970-01-02 00:16              1.00\<newline>''\<rparr> = render (\<lambda>v. []) ranking
         \<and> (\<forall>e \<in> set ranking. 0 \<le> duration_seconds e
               \<and> (\<exists>delta. dt_sub (end_time e) (start_time e) = Inr delta \<and> 0 \<le> delta
                     \<and> duration_seconds e = total_seconds delta)))"
proof -
  have ev: "main (\<lambda>v. []) None (Inr negative_payload) utc_2025
     = Inr \<lparr>printed = [''Rank  Ad Archive ID         Page Name                       Start (UTC)           End (UTC)              Active Days'',
      ''--------------------------------------------------------------------------------------------------------------------'',
      ''   1  OK                                                    1970-01-01 00:16      1970-01-02 00:16              1.00''],
    written = ''Rank  Ad Archive ID         Page Name                       Start (UTC)           End (UTC)              Active Days\<newline>--------------------------------------------------------------------------------------------------------------------\<newline>   1  OK                                                    1970-01-01 00:16      1970-01-02 00:16              1.00\<newline>''\<rparr>"
    by code_simp
  from no_negative_duration [OF ev] ev show ?thesis by (rule conjI [rotated])
qed

text \<open>
  C7.  When the list of records is empty or every record is skipped, the run prints the
  one line \<^verbatim>\<open>No ads with valid start and end times found.\<close> and writes this line and
  a line end to the output file; there is no header and no row.
\<close>

theorem no_valid_ads_message:
  assumes "resolve_now now_arg clock = Inr now" and "iter_ads payload = Inr ads"
    and "\<forall>ad \<in> set ads. process_ad now ad = Inr None"
  shows "\<exists>rep. main repr now_arg (Inr payload) clock = Inr rep
           \<and> printed rep = [''No ads with valid start and end times found.'']
           \<and> stdout_text rep = ''No ads with valid start and end times found.\<newline>''
           \<and> written rep = ''No ads with valid start and end times found.\<newline>''"
  using assms emitted_all_skipped [OF assms(3), of "[]"]
  by (simp add: main_def rank_ads_def sort_reverse_def render_def message_def stdout_text_def
      newline_def)

text \<open>C7 on four records, each skipped for another reason, with a \<^verbatim>\<open>--now\<close> override.\<close>

theorem no_valid_ads_message_witness:
  "\<exists>rep. main (\<lambda>v. []) (Some ''2025-01-02T00:00:00Z'') (Inr (JObj [(''data'', JList skipped_ads)])) utc_2025
            = Inr rep
         \<and> printed rep = [''No ads with valid start and end times found.'']
         \<and> stdout_text rep = ''No ads with valid start and end times found.\<newline>''
         \<and> written rep = ''No ads with valid start and end times found.\<newline>''"
proof -
  let ?now = "\<lparr>wall = 63871372800000000, utcoffset = Some 0\<rparr>"
  have n: "resolve_now (Some ''2025-01-02T00:00:00Z'') utc_2025 = Inr ?now"
    by code_simp
  have i: "iter_ads (JObj [(''data'', JList skipped_ads)]) = Inr skipped_ads"
    by (simp add: iter_ads_def)
  have "list_all (\<lambda>ad. process_ad ?now ad = Inr None) skipped_ads"
    by code_simp
  then have s: "\<forall>ad \<in> set skipped_ads. process_ad ?now ad = Inr None"
    by (simp only: list_all_iff)
  from no_valid_ads_message [OF n i s] show ?thesis .
qed

subsection \<open>The end time of an active ad\<close>



subsection \<open>Identifier and page name\<close>

lemma str_or_empty_falsy: "\<not> py_truthy v \<Longrightarrow> str_or_empty repr v = []"
  by (simp add: str_or_empty_def)



subsection \<open>Active days of epoch records\<close>

lemma fromtimestamp_utc_valid:
  assumes "- 62135596800 \<le> n" and "n \<le> 253402300799"
  shows "fromtimestamp_utc n = Inr \<lparr>wall = (n + 62135596800) * 1000000, utcoffset = Some 0\<rparr>"
  using assms by (simp add: fromtimestamp_utc_def max_days_def Let_def)

lemma parse_datetime_epoch:
  assumes "- 62135596800 \<le> n" and "n \<le> 253402300799"
  shows "parse_datetime (JInt n) text
           = Inr (Some \<lparr>wall = (n + 62135596800) * 1000000, utcoffset = Some 0\<rparr>)"
  by (simp add: parse_datetime_def fromtimestamp_utc_valid [OF assms])

lemma total_seconds_whole:
  assumes "\<bar>d\<bar> < 2 ^ 53"
  shows "total_seconds (d * 1000000) = of_int d"
  by (simp add: total_seconds_def fl64_of_int [OF assms])

lemma nearest_hundredth:
  fixes d :: int and z :: rat
  assumes "(d + 432) mod 864 \<noteq> 0"
    and lo: "of_int d / 864 - 1 / 1728 < z" and hi: "z < of_int d / 864 + 1 / 1728"
  shows "round_half_even z = (d + 432) div 864"
proof (rule round_half_even_near)
  define q where "q = (d + 432) div 864"
  define r where "r = (d + 432) mod 864"
  have "0 \<le> r" "r < 864" "r \<noteq> 0"
    using assms(1) by (simp_all add: r_def)
  then have r: "1 \<le> r" "r \<le> 863"
    by linarith+
  have "d + 432 = 864 * q + r"
    by (simp add: q_def r_def)
  then have "d = 864 * q + r - 432" by simp
  then have "(of_int d :: rat) = 864 * of_int q + of_int r - 432"
    by simp
  then have x: "(of_int d :: rat) / 864 = of_int q + (of_int r - 432) / 864"
    by (simp add: field_simps)
  have "(1::rat) \<le> of_int r" "(of_int r :: rat) \<le> 863"
    using r by simp_all
  then have "- 431 / 864 \<le> (of_int r - 432) / (864::rat)" "(of_int r - 432) / (864::rat) \<le> 431 / 864"
    by (simp_all add: field_simps)
  with x lo hi have "z - of_int q < 1 / 2 \<and> - (z - of_int q) < 1 / 2"
    by (intro conjI; linarith)
  then have "\<bar>z - of_int q\<bar> < 1 / 2"
    by (simp only: abs_less_iff)
  then show "\<bar>z - of_int ((d + 432) div 864)\<bar> < 1 / 2"
    by (simp only: q_def)
qed


lemma two_places_of_quotient:
  assumes "0 \<le> d" and "d \<le> 315537897599" and "d mod 864 \<noteq> 432"
  shows "round_half_even (\<bar>fl64 (of_int d / 86400)\<bar> * 100) = (d + 432) div 864"
    and "round_half_even (\<bar>of_int d / 86400\<bar> * 100) = (d + 432) div 864"
proof -
  define x :: rat where "x = of_int d / 86400"
  define y where "y = fl64 x"
  have x0: "0 \<le> x" using assms(1) by (simp add: x_def)
  then have y0: "0 \<le> y" by (simp add: y_def fl64_nonneg_iff)
  have m: "(d + 432) mod 864 \<noteq> 0"
  proof
    assume "(d + 432) mod 864 = 0"
    then have "864 dvd d + 432" by (simp add: dvd_eq_mod_eq_0)
    then obtain k where "d + 432 = 864 * k" ..
    then have "d = 432 + 864 * (k - 1)" by simp
    then have "d mod 864 = 432 mod 864" by (simp only: mod_mult_self2)
    with assms(3) show False by simp
  qed
  have x100: "x * 100 = of_int d / 864"
    by (simp add: x_def)
  have xb: "x * 100 \<le> 315537897599 / 864"
    using assms(2) by (simp add: x100)
  have "round_half_even (x * 100) = (d + 432) div 864"
    by (rule nearest_hundredth [OF m]) (simp_all add: x100)
  with x0 show "round_half_even (\<bar>of_int d / 86400\<bar> * 100) = (d + 432) div 864"
    by (simp add: x_def)
  have e: "y - x \<le> x / 9007199254740992 \<and> x - y \<le> x / 9007199254740992"
  proof (cases "x = 0")
    case True
    then show ?thesis by (simp add: y_def fl64_def)
  next
    case False
    from fl64_error [OF False] have "\<bar>y - x\<bar> * 9007199254740992 \<le> x"
      using x0 by (simp add: y_def)
    then have "\<bar>y - x\<bar> \<le> x / 9007199254740992"
      by (simp add: field_simps)
    then show ?thesis
      by (simp only: abs_le_iff) simp
  qed
  have "round_half_even (y * 100) = (d + 432) div 864"
  proof (rule nearest_hundredth [OF m])
    show "of_int d / 864 - 1 / 1728 < y * 100"
      using e xb x100 by linarith
    show "y * 100 < of_int d / 864 + 1 / 1728"
      using e xb x100 by linarith
  qed
  with y0 show "round_half_even (\<bar>fl64 (of_int d / 86400)\<bar> * 100) = (d + 432) div 864"
    by (simp add: y_def x_def)
qed

lemma format_timedelta_exact:
  assumes "0 \<le> d" and "d \<le> 315537897599" and "d mod 864 \<noteq> 432"
  shows "format_timedelta (of_int d) = format_2f (of_int d / 86400)"
proof -
  have "0 \<le> fl64 (of_int d / 86400)" "0 \<le> (of_int d :: rat) / 86400"
    using assms(1) by (simp_all add: fl64_nonneg_iff)
  then have "\<not> fl64 (of_int d / 86400) < 0" "\<not> (of_int d :: rat) / 86400 < 0"
    by simp_all
  then show ?thesis
    unfolding format_timedelta_def format_2f_def Let_def
    by (simp only: two_places_of_quotient [OF assms] if_False)
qed

text \<open>
  C4, as stated, fails where the quotient lies exactly between two hundredths: 1296
  seconds are 0.015 days, which rounds to 0.02, and the line shows 0.01, because the
  binary64 number nearest to 0.015 is below it.  In the same way 432 seconds (0.005 days)
  give 0.01 and 3024 seconds (0.035 days) give 0.04, so no rule for ties applied to the
  exact quotient gives the printed values.
\<close>

theorem tie_rounding_counterexample:
  "process_ad \<lparr>wall = 63871286400000000, utcoffset = Some 0\<rparr>
       (JObj [(''start_date'', JInt 1000), (''end_date'', JInt (1000 + 1296))])
     = Inr (Some \<lparr>ad_archive_id = JNull, page_name = JNull,
                  start_time = \<lparr>wall = 62135597800000000, utcoffset = Some 0\<rparr>,
                  end_time = \<lparr>wall = 62135599096000000, utcoffset = Some 0\<rparr>,
                  duration_seconds = 1296\<rparr>)
   \<and> (1296::rat) / 86400 = 15 / 1000 \<and> format_timedelta 1296 = ''0.01''
   \<and> format_2f (1296 / 86400) = ''0.02'' \<and> \<lfloor>(1296::rat) / 86400 * 100 + 1 / 2\<rfloor> = 2
   \<and> (432::rat) / 86400 = 5 / 1000 \<and> format_timedelta 432 = ''0.01''
   \<and> (3024::rat) / 86400 = 35 / 1000 \<and> format_timedelta 3024 = ''0.04''"
  by code_simp

text \<open>
  C4, amended.  A record with integer epochs \<open>s \<le> e\<close> inside the range of
  \<^verbatim>\<open>datetime\<close> yields an entry whose duration is exactly \<open>e - s\<close> seconds; the value
  printed for it is the binary64 quotient by 86400 rendered with two decimals, and this
  is \<open>(e - s) / 86400\<close> rounded to two decimals whenever the quotient is not exactly
  halfway between two hundredths, that is \<open>(e - s) mod 864 \<noteq> 432\<close>.
\<close>

theorem epoch_duration_days:
  assumes "py_get ad ''start_date'' = Inr (JInt s)" and "py_get ad ''end_date'' = Inr (JInt e)"
    and "- 62135596800 \<le> s" and "s \<le> e" and "e \<le> 253402300799"
  shows "\<exists>item. process_ad now ad = Inr (Some item)
           \<and> duration_seconds item = of_int (e - s)
           \<and> format_timedelta (duration_seconds item)
               = format_2f (fl64 (of_int (e - s) / 86400))
           \<and> ((e - s) mod 864 \<noteq> 432 \<longrightarrow>
                format_timedelta (duration_seconds item) = format_2f (of_int (e - s) / 86400))"
proof -
  from assms(1) obtain kvs where ad: "ad = JObj kvs"
    by (cases ad) simp_all
  have ps: "parse_datetime (JInt s) x
              = Inr (Some \<lparr>wall = (s + 62135596800) * 1000000, utcoffset = Some 0\<rparr>)" for x
    using assms by (intro parse_datetime_epoch) simp_all
  have pe: "parse_datetime (JInt e) x
              = Inr (Some \<lparr>wall = (e + 62135596800) * 1000000, utcoffset = Some 0\<rparr>)" for x
    using assms by (intro parse_datetime_epoch) simp_all
  have de: "determine_end_time ad now
              = Inr (Some \<lparr>wall = (e + 62135596800) * 1000000, utcoffset = Some 0\<rparr>)"
    using assms(2) by (simp add: determine_end_time_def ad pe)
  have sub: "dt_sub \<lparr>wall = (e + 62135596800) * 1000000, utcoffset = Some 0\<rparr>
                    \<lparr>wall = (s + 62135596800) * 1000000, utcoffset = Some 0\<rparr>
               = Inr ((e - s) * 1000000)"
    by (simp add: dt_sub_def algebra_simps)
  have "\<bar>e - s\<bar> < 2 ^ 53"
    using assms by simp
  then have ts: "total_seconds ((e - s) * 1000000) = of_int (e - s)"
    by (rule total_seconds_whole)
  have nn: "\<not> (of_int (e - s) :: rat) < 0"
    using assms(4) by simp
  have g: "py_get ad ''start_date_string'' = Inr (lookup kvs ''start_date_string'')"
    "py_get ad ''ad_archive_id'' = Inr (lookup kvs ''ad_archive_id'')"
    "py_get ad ''page_name'' = Inr (lookup kvs ''page_name'')"
    by (simp_all add: ad lookup_def)
  have p: "process_ad now ad
             = Inr (Some \<lparr>ad_archive_id = lookup kvs ''ad_archive_id'',
                          page_name = lookup kvs ''page_name'',
                          start_time = \<lparr>wall = (s + 62135596800) * 1000000, utcoffset = Some 0\<rparr>,
                          end_time = \<lparr>wall = (e + 62135596800) * 1000000, utcoffset = Some 0\<rparr>,
                          duration_seconds = of_int (e - s)\<rparr>)"
    unfolding process_ad_def
    by (simp only: assms(1) g ps de sub ts nn sum.case option.case if_False)
  have f: "format_timedelta (of_int (e - s)) = format_2f (of_int (e - s) / 86400)"
    if "(e - s) mod 864 \<noteq> 432"
    using assms that by (intro format_timedelta_exact) simp_all
  from p f show ?thesis
    by (simp add: format_timedelta_def)
qed

text \<open>
  C4, amended, on the example of the specification: one row, with the active days 3.00.
\<close>

theorem epoch_duration_days_witness:
  "(\<exists>item. process_ad utc_2025 example_ad = Inr (Some item)
       \<and> duration_seconds item = 259200
       \<and> format_timedelta (duration_seconds item) = ''3.00'')
   \<and> main (\<lambda>v. []) None (Inr example_payload) utc_2025
     = Inr \<lparr>printed = [''Rank  Ad Archive ID         Page Name                       Start (UTC)           End (UTC)              Active Days'',
      ''--------------------------------------------------------------------------------------------------------------------'',
      ''   1  A1                    P1                              1970-01-01 00:16      1970-01-04 00:16              3.00''],
    written = ''Rank  Ad Archive ID         Page Name                       Start (UTC)           End (UTC)              Active Days\<newline>--------------------------------------------------------------------------------------------------------------------\<newline>   1  A1                    P1                              1970-01-01 00:16      1970-01-04 00:16              3.00\<newline>''\<rparr>"
proof -
  have h: "py_get example_ad ''start_date'' = Inr (JInt 1000)"
    "py_get example_ad ''end_date'' = Inr (JInt 260200)"
    by code_simp+
  have r: "(- 62135596800::int) \<le> 1000" "(1000::int) \<le> 260200" "(260200::int) \<le> 253402300799"
    by simp_all
  have m: "(260200 - 1000) mod 864 \<noteq> (432::int)" by simp
  have f: "format_2f (of_int (260200 - 1000) / 86400) = ''3.00''" by code_simp
  have "\<exists>item. process_ad utc_2025 example_ad = Inr (Some item)
       \<and> duration_seconds item = 259200
       \<and> format_timedelta (duration_seconds item) = ''3.00''"
    using epoch_duration_days [OF h r, of utc_2025] m f by auto
  moreover have "main (\<lambda>v. []) None (Inr example_payload) utc_2025
     = Inr \<lparr>printed = [''Rank  Ad Archive ID         Page Name                       Start (UTC)           End (UTC)              Active Days'',
      ''--------------------------------------------------------------------------------------------------------------------'',
      ''   1  A1                    P1                              1970-01-01 00:16      1970-01-04 00:16              3.00''],
    written = ''Rank  Ad Archive ID         Page Name                       Start (UTC)           End (UTC)              Active Days\<newline>--------------------------------------------------------------------------------------------------------------------\<newline>   1  A1                    P1                              1970-01-01 00:16      1970-01-04 00:16              3.00\<newline>''\<rparr>"
    by code_simp
  ultimately show ?thesis by (rule conjI)
qed

subsection \<open>The \<^verbatim>\<open>--now\<close> option\<close>








subsection \<open>Exceptions that leave the resolver\<close>

text \<open>
  C1 at failing inputs.  The second record of the list has an epoch start and a text end
  without offset: the start is aware, the end naive, and the subtraction of line 103
  raises \<^verbatim>\<open>TypeError\<close>, which ends the run although the first record is valid.  The
  resolver itself raises for an epoch beyond the 64-bit range (\<^verbatim>\<open>OverflowError\<close>), for
  an epoch that is a list (\<^verbatim>\<open>TypeError\<close>) and for a date text that is a number
  (\<^verbatim>\<open>AttributeError\<close>).
\<close>

theorem naive_end_aborts_run:
  "main (\<lambda>v. []) None
     (Inr (JObj [(''data'', JList
        [JObj [(''ad_archive_id'', JStr ''A1''), (''start_date'', JInt 1000),
               (''end_date'', JInt 260200)],
         JObj [(''ad_archive_id'', JStr ''A2''), (''start_date'', JInt 1000),
               (''end_date_string'', JStr ''2025-01-01T00:00:00'')]])]))
     \<lparr>wall = 63871286400000000, utcoffset = Some 0\<rparr> = Inl TypeError
   \<and> parse_datetime (JInt 9223372036854775808) (JStr ''2025-01-01T00:00:00+00:00'')
       = Inl OverflowError
   \<and> parse_datetime (JList []) JNull = Inl TypeError
   \<and> parse_datetime JNull (JInt 20250101) = Inl AttributeError"
  by code_simp

subsection \<open>Time zones of resolved timestamps\<close>

text \<open>
  C2 at a failing input.  A text with the offset \<^verbatim>\<open>+05:00\<close> is resolved to an object that
  keeps this offset, and its column shows the local reading 2025-01-01 00:00 where the
  instant is 2024-12-31 19:00 in UTC; a text without offset is resolved to a naive object.
  The row of such a record stands under the titles \<^verbatim>\<open>Start (UTC)\<close> and
  \<^verbatim>\<open>End (UTC)\<close> with the local readings.
\<close>

theorem offset_text_not_utc:
  "parse_datetime JNull (JStr ''2025-01-01T00:00:00+05:00'')
     = Inr (Some \<lparr>wall = 63871286400000000, utcoffset = Some 18000000000\<rparr>)
   \<and> strftime \<lparr>wall = 63871286400000000, utcoffset = Some 18000000000\<rparr>
     = ''2025-01-01 00:00''
   \<and> strftime \<lparr>wall = 63871286400000000 - 18000000000, utcoffset = Some 0\<rparr>
     = ''2024-12-31 19:00''
   \<and> parse_datetime JNull (JStr ''2025-01-01T00:00:00'')
     = Inr (Some \<lparr>wall = 63871286400000000, utcoffset = None\<rparr>)
   \<and> map_sum id printed
        (main (\<lambda>v. []) None
          (Inr (JObj [(''data'', JList
             [JObj [(''ad_archive_id'', JStr ''Z1''),
                    (''start_date_string'', JStr ''2025-01-01T00:00:00+05:00''),
                    (''end_date_string'', JStr ''2025-01-02T12:00:00+05:00'')]])]))
          utc_2025)
     = Inr [header, separator,
            ''   1  Z1                                                    2025-01-01 00:00      2025-01-02 12:00              1.50'']"
  by code_simp

end
